theory Spec2Isabelle
  imports Main "HOL-Library.AList"
begin

section \<open>JavaScript strings\<close>

text \<open>
  A source string is a sequence of UTF-16 code units; the model covers the code units
  below 256 (one \<^typ>\<open>char\<close> each), which include every character the parser and the
  validator test for.  Among them the line terminators are CR and LF, and the white
  space of \<open>trim\<close> and of the class \<open>\s\<close> is TAB, LF, VT, FF, CR, SPACE and NBSP.
\<close>

abbreviation CR :: char where "CR \<equiv> CHR 0x0D"
abbreviation LF :: char where "LF \<equiv> CHR 0x0A"

definition isDigit :: "char \<Rightarrow> bool" where
  "isDigit c = (c \<in> set ''0123456789'')"

definition isUpper :: "char \<Rightarrow> bool" where
  "isUpper c = (c \<in> set ''ABCDEFGHIJKLMNOPQRSTUVWXYZ'')"

definition isSpace :: "char \<Rightarrow> bool" where
  "isSpace c = (c \<in> set [CHR 0x09, LF, CHR 0x0B, CHR 0x0C, CR, CHR 0x20, CHR 0xA0])"

definition isLineTerminator :: "char \<Rightarrow> bool" where
  "isLineTerminator c = (c = CR \<or> c = LF)"

definition digitVal :: "char \<Rightarrow> nat" where
  "digitVal c = of_char c - 48"

text \<open>\<open>s.trim()\<close>\<close>

definition trim :: "string \<Rightarrow> string" where
  "trim s = rev (dropWhile isSpace (rev (dropWhile isSpace s)))"

text \<open>\<open>s.slice(a, b)\<close> for \<open>0 \<le> a \<le> b\<close>, and \<open>s.charAt(i)\<close>: out of range they are empty.\<close>

definition slice :: "nat \<Rightarrow> nat \<Rightarrow> string \<Rightarrow> string" where
  "slice a b s = take (b - a) (drop a s)"

definition charAt :: "nat \<Rightarrow> string \<Rightarrow> string" where
  "charAt i s = take 1 (drop i s)"

text \<open>\<open>s.replace(pat, rep)\<close> with a string pattern: the first occurrence only.\<close>

fun replaceFirst :: "string \<Rightarrow> string \<Rightarrow> string \<Rightarrow> string" where
  "replaceFirst pat rep [] = (if pat = [] then rep else [])"
| "replaceFirst pat rep (c # cs) =
     (if take (length pat) (c # cs) = pat then rep @ drop (length pat) (c # cs)
      else c # replaceFirst pat rep cs)"

text \<open>\<open>xs.join(sep)\<close>\<close>

fun joinWith :: "string \<Rightarrow> string list \<Rightarrow> string" where
  "joinWith sep [] = []"
| "joinWith sep [x] = x"
| "joinWith sep (x # y # ys) = x @ sep @ joinWith sep (y # ys)"

text \<open>
  \<open>s.split(/\r?\n/)\<close>: a separator is an LF together with one CR right before it, if
  there is one.  The result is never empty: the empty string splits into one empty line.
\<close>

fun splitLines :: "string \<Rightarrow> string list" where
  "splitLines [] = [[]]"
| "splitLines (c # cs) =
     (if c = LF then [] # splitLines cs
      else (case cs of
              d # ds \<Rightarrow>
                if c = CR \<and> d = LF then [] # splitLines ds
                else (case splitLines cs of l # ls \<Rightarrow> (c # l) # ls | [] \<Rightarrow> [[c]])
            | [] \<Rightarrow> [[c]]))"

text \<open>The decimal rendering of a number in a template string.\<close>

fun showNat :: "nat \<Rightarrow> string" where
  "showNat n = (if n < 10 then [char_of (48 + n)] else showNat (n div 10) @ [char_of (48 + n mod 10)])"

declare showNat.simps [simp del]

section \<open>JavaScript objects used as dictionaries\<close>

text \<open>
  An object is an association list in insertion order with distinct keys:
  \<open>obj[k] = v\<close> is \<^const>\<open>AList.update\<close> (an existing key keeps its place, a new one
  goes last) and \<open>obj[k]\<close> is \<^const>\<open>map_of\<close>.  \<open>Object.entries\<close> lists the keys
  that are canonical array indices first, in ascending numeric order, then the other
  keys in insertion order.
\<close>

definition natOfDigits :: "string \<Rightarrow> nat" where
  "natOfDigits s = foldl (\<lambda>n c. 10 * n + digitVal c) 0 s"

definition isArrayIndex :: "string \<Rightarrow> bool" where
  "isArrayIndex s =
     (s \<noteq> [] \<and> list_all isDigit s \<and> (s = ''0'' \<or> hd s \<noteq> CHR ''0'')
      \<and> natOfDigits s < 4294967295)"

definition objectEntries :: "(string \<times> 'v) list \<Rightarrow> (string \<times> 'v) list" where
  "objectEntries obj =
     sort_key (\<lambda>kv. natOfDigits (fst kv)) (filter (\<lambda>kv. isArrayIndex (fst kv)) obj)
     @ filter (\<lambda>kv. \<not> isArrayIndex (fst kv)) obj"

section \<open>The parsed message\<close>

datatype FieldValue = Str string | Arr "string list"

type_synonym TextBlock = "(string \<times> FieldValue) list"

record BasicHeader =
  applicationId :: string
  serviceId :: string
  ltAddress :: string
  sessionNumber :: string
  sequenceNumber :: string

record ApplicationHeader =
  inputOutput :: string
  ahMessageType :: string
  receiverAddress :: "string option"
  priority :: "string option"
  deliveryMonitor :: "string option"
  obsolescencePeriod :: "string option"
  inputTime :: "string option"
  inputDate :: "string option"
  mir :: "string option"
  outputDate :: "string option"
  outputTime :: "string option"

record ParsedMtMessage =
  messageType :: string
  basicHeader :: BasicHeader
  applicationHeader :: ApplicationHeader
  userHeader :: "(string \<times> string) list option"
  textBlock :: TextBlock
  trailers :: "(string \<times> string) list option"
  rawMessage :: string

section \<open>extractBlocks\<close>

text \<open>
  The block pattern \<open>/\{(\d):([^{}]*(?:\{[^{}]*\}[^{}]*)*)\}/g\<close>.  After \<open>{d:\<close> the
  match is forced: a run without braces, then either the closing brace, or one nested
  pair \<open>{...}\<close> without braces inside and the same again.  \<open>matchBody inner acc s\<close> reads
  \<open>s\<close> with the content read so far in \<open>acc\<close>, \<open>inner\<close> telling whether a nested
  pair is open; it returns the content and the text after the closing brace, or
  \<open>None\<close> when the pattern does not match from this start.
\<close>

fun matchBody :: "bool \<Rightarrow> string \<Rightarrow> string \<Rightarrow> (string \<times> string) option" where
  "matchBody inner acc [] = None"
| "matchBody inner acc (c # cs) =
     (if c = CHR ''{'' then (if inner then None else matchBody True (acc @ [c]) cs)
      else if c = CHR ''}'' then (if inner then matchBody False (acc @ [c]) cs else Some (acc, cs))
      else matchBody inner (acc @ [c]) cs)"

definition matchBlockAt :: "string \<Rightarrow> (nat \<times> string \<times> string) option" where
  "matchBlockAt s =
     (case s of
        b # d # k # rest \<Rightarrow>
          if b = CHR ''{'' \<and> isDigit d \<and> k = CHR '':'' then
            (case matchBody False [] rest of
               Some (content, rest') \<Rightarrow> Some (digitVal d, content, rest')
             | None \<Rightarrow> None)
          else None
      | _ \<Rightarrow> None)"

text \<open>
  The \<open>exec\<close> loop: the leftmost match from the current position, then on from its end;
  a start that does not match is passed over by one character.
\<close>

function scanBlocks :: "string \<Rightarrow> (nat \<times> string) list" where
  "scanBlocks [] = []"
| "scanBlocks (c # cs) =
     (case matchBlockAt (c # cs) of
        Some (n, content, rest) \<Rightarrow> (n, content) # scanBlocks rest
      | None \<Rightarrow> scanBlocks cs)"
  by pat_completeness auto
termination
proof -
  have body: "\<And>inner acc s r. matchBody inner acc s = Some r \<Longrightarrow> length (snd r) < length s"
  proof -
    fix inner acc s and r :: "string \<times> string"
    show "matchBody inner acc s = Some r \<Longrightarrow> length (snd r) < length s"
      by (induction inner acc s rule: matchBody.induct) (auto split: if_splits)
  qed
  show ?thesis
    by (relation "measure length")
      (auto simp: matchBlockAt_def split: list.splits if_splits option.splits dest!: body)
qed

definition extractBlocks :: "string \<Rightarrow> (nat \<times> string) list" where
  "extractBlocks message =
     (let blocks = foldl (\<lambda>bs (n, content). AList.update n content bs) [] (scanBlocks message)
      in if blocks = [] then [(4, message)] else blocks)"

text \<open>\<open>if (blocks[n])\<close>: the block is there and not the empty string.\<close>

definition blockOf :: "(nat \<times> string) list \<Rightarrow> nat \<Rightarrow> string option" where
  "blockOf blocks n = (case map_of blocks n of Some s \<Rightarrow> if s = [] then None else Some s | None \<Rightarrow> None)"

section \<open>Header decoders\<close>

definition parseBasicHeader :: "string \<Rightarrow> BasicHeader" where
  "parseBasicHeader block =
     \<lparr> applicationId = charAt 0 block,
       serviceId = slice 1 3 block,
       ltAddress = slice 3 15 block,
       sessionNumber = slice 15 19 block,
       sequenceNumber = slice 19 25 block \<rparr>"

definition emptyApplicationHeader :: ApplicationHeader where
  "emptyApplicationHeader =
     \<lparr> inputOutput = [], ahMessageType = [], receiverAddress = None, priority = None,
       deliveryMonitor = None, obsolescencePeriod = None, inputTime = None, inputDate = None,
       mir = None, outputDate = None, outputTime = None \<rparr>"

definition parseApplicationHeader :: "string \<Rightarrow> ApplicationHeader" where
  "parseApplicationHeader block =
     (if block = [] then emptyApplicationHeader
      else if charAt 0 block = ''I'' then
        emptyApplicationHeader
          \<lparr> inputOutput := charAt 0 block,
            ahMessageType := ''MT'' @ slice 1 4 block,
            receiverAddress := Some (slice 4 16 block),
            priority := Some (charAt 16 block),
            deliveryMonitor := Some (charAt 17 block),
            obsolescencePeriod := Some (slice 18 21 block) \<rparr>
      else if charAt 0 block = ''O'' then
        emptyApplicationHeader
          \<lparr> inputOutput := charAt 0 block,
            ahMessageType := ''MT'' @ slice 1 4 block,
            inputTime := Some (slice 4 8 block),
            inputDate := Some (slice 8 14 block),
            mir := Some (slice 14 42 block),
            outputDate := Some (slice 42 48 block),
            outputTime := Some (slice 48 52 block),
            priority := Some (charAt 52 block) \<rparr>
      else emptyApplicationHeader \<lparr> inputOutput := charAt 0 block \<rparr>)"

text \<open>
  The sub-field patterns \<open>/\{(\d{3}):([^}]*)\}/g\<close> of the user header and
  \<open>/\{([A-Z]{3}):([^}]*)\}/g\<close> of the trailers differ in the class of the three key
  characters only.  A match starts at an opening brace followed by the key and a colon,
  and runs to the first closing brace after it; with no closing brace there is no match.
\<close>

definition matchSubFieldAt :: "(char \<Rightarrow> bool) \<Rightarrow> string \<Rightarrow> (string \<times> string \<times> string) option" where
  "matchSubFieldAt keyChar s =
     (case s of
        b # k1 # k2 # k3 # c # rest \<Rightarrow>
          if b = CHR ''{'' \<and> keyChar k1 \<and> keyChar k2 \<and> keyChar k3 \<and> c = CHR '':''
             \<and> CHR ''}'' \<in> set rest
          then Some ([k1, k2, k3], takeWhile (\<lambda>x. x \<noteq> CHR ''}'') rest,
                     drop 1 (dropWhile (\<lambda>x. x \<noteq> CHR ''}'') rest))
          else None
      | _ \<Rightarrow> None)"

function scanSubFields :: "(char \<Rightarrow> bool) \<Rightarrow> string \<Rightarrow> (string \<times> string) list" where
  "scanSubFields keyChar [] = []"
| "scanSubFields keyChar (c # cs) =
     (case matchSubFieldAt keyChar (c # cs) of
        Some (key, val, rest) \<Rightarrow> (key, val) # scanSubFields keyChar rest
      | None \<Rightarrow> scanSubFields keyChar cs)"
  by pat_completeness auto
termination
proof -
  have dw: "\<And>P (xs :: string). length (dropWhile P xs) - Suc 0 < Suc (Suc (Suc (Suc (Suc (length xs)))))"
  proof -
    fix P and xs :: string
    have "length (dropWhile P xs) \<le> length xs" by (rule length_dropWhile_le)
    then show "length (dropWhile P xs) - Suc 0 < Suc (Suc (Suc (Suc (Suc (length xs)))))" by simp
  qed
  show ?thesis
    by (relation "measure (\<lambda>(k, s). length s)")
      (auto simp: matchSubFieldAt_def dw split: list.splits if_splits)
qed

definition parseUserHeader :: "string \<Rightarrow> (string \<times> string) list" where
  "parseUserHeader block =
     foldl (\<lambda>header (key, val). AList.update key val header) [] (scanSubFields isDigit block)"

definition parseTrailers :: "string \<Rightarrow> (string \<times> string) list" where
  "parseTrailers block =
     foldl (\<lambda>header (key, val). AList.update key val header) [] (scanSubFields isUpper block)"

section \<open>parseTextBlock\<close>

text \<open>\<open>block.replace(/^[\r\n]+|[\r\n]+$/g, '')\<close>: the leading and the trailing run of CR and LF go.\<close>

definition stripNewlines :: "string \<Rightarrow> string" where
  "stripNewlines s = rev (dropWhile isLineTerminator (rev (dropWhile isLineTerminator s)))"

text \<open>
  \<open>line.match(/^:(\d{2}[A-Z]?):(.*)$/)\<close>: the tag and the rest of the line.  The dot
  matches no line terminator, so a line that still holds a CR is no tag line.
\<close>

definition matchTagLine :: "string \<Rightarrow> (string \<times> string) option" where
  "matchTagLine line =
     (case line of
        c0 # d1 # d2 # r0 \<Rightarrow>
          if c0 = CHR '':'' \<and> isDigit d1 \<and> isDigit d2 then
            (case r0 of
               x # r1 \<Rightarrow>
                 if x = CHR '':'' then
                   (if list_ex isLineTerminator r1 then None else Some ([d1, d2], r1))
                 else if isUpper x then
                   (case r1 of
                      y # r2 \<Rightarrow>
                        if y = CHR '':'' \<and> \<not> list_ex isLineTerminator r2
                        then Some ([d1, d2, x], r2) else None
                    | [] \<Rightarrow> None)
                 else None
             | [] \<Rightarrow> None)
          else None
      | _ \<Rightarrow> None)"

text \<open>\<open>fields[currentTag] = currentLines.length > 1 ? currentLines : currentLines.join('\n')\<close>,
  under \<open>if (currentTag)\<close>.\<close>

definition fieldValueOf :: "string list \<Rightarrow> FieldValue" where
  "fieldValueOf currentLines =
     (if length currentLines > 1 then Arr currentLines else Str (joinWith [LF] currentLines))"

definition saveField :: "TextBlock \<Rightarrow> string \<Rightarrow> string list \<Rightarrow> TextBlock" where
  "saveField flds currentTag currentLines =
     (if currentTag \<noteq> [] then AList.update currentTag (fieldValueOf currentLines) flds
      else flds)"

text \<open>The loop over the lines, with \<open>fields\<close> (here \<open>flds\<close>), \<open>currentTag\<close> and \<open>currentLines\<close> as its state,
  and the save of the last field after it.\<close>

fun tokenize :: "TextBlock \<Rightarrow> string \<Rightarrow> string list \<Rightarrow> string list \<Rightarrow> TextBlock" where
  "tokenize flds currentTag currentLines [] = saveField flds currentTag currentLines"
| "tokenize flds currentTag currentLines (line # rest) =
     (case matchTagLine line of
        Some (tag, content) \<Rightarrow>
          tokenize (saveField flds currentTag currentLines) tag
            (if content \<noteq> [] then [content] else []) rest
      | None \<Rightarrow>
          if currentTag \<noteq> [] \<and> line \<noteq> ''-''
          then tokenize flds currentTag (currentLines @ [line]) rest
          else tokenize flds currentTag currentLines rest)"

definition parseTextBlock :: "string \<Rightarrow> TextBlock" where
  "parseTextBlock block = tokenize [] [] [] (splitLines (stripNewlines block))"

section \<open>parseMtMessage\<close>

definition parseMtMessage :: "string \<Rightarrow> ParsedMtMessage" where
  "parseMtMessage raw =
     (let cleaned = trim raw;
          blocks = extractBlocks cleaned;
          ah = (case blockOf blocks 2 of
                  Some b \<Rightarrow> parseApplicationHeader b
                | None \<Rightarrow> emptyApplicationHeader)
      in \<lparr> messageType = (case blockOf blocks 2 of Some b \<Rightarrow> ahMessageType ah | None \<Rightarrow> []),
           basicHeader = (case blockOf blocks 1 of
                            Some b \<Rightarrow> parseBasicHeader b
                          | None \<Rightarrow> \<lparr> applicationId = [], serviceId = [], ltAddress = [],
                                       sessionNumber = [], sequenceNumber = [] \<rparr>),
           applicationHeader = ah,
           userHeader = map_option parseUserHeader (blockOf blocks 3),
           textBlock = (case blockOf blocks 4 of Some b \<Rightarrow> parseTextBlock b | None \<Rightarrow> []),
           trailers = map_option parseTrailers (blockOf blocks 5),
           rawMessage = cleaned \<rparr>)"

section \<open>The field specification registry\<close>

text \<open>
  \<open>MtFieldSpec\<close> and \<open>MtMessageSpec\<close> of the templates module, with the members the
  validator reads: tag, name, mandatory flag and maximum length of a field, type and
  field list of a message.  The format descriptor, the description and the category are
  documentation that no function reads; they are left out.
\<close>

record MtFieldSpec =
  tag :: string
  name :: string
  mandatory :: bool
  maxLength :: "nat option"

record MtMessageSpec =
  specType :: string
  specFields :: "MtFieldSpec list"

definition fieldSpec :: "string \<Rightarrow> string \<Rightarrow> bool \<Rightarrow> nat option \<Rightarrow> MtFieldSpec" where
  "fieldSpec t n m l = \<lparr> tag = t, name = n, mandatory = m, maxLength = l \<rparr>"

definition MT103_SPEC :: MtMessageSpec where
  "MT103_SPEC = \<lparr> specType = ''MT103'', specFields = [
       fieldSpec ''20'' (''Sender'' @ [CHR 0x27] @ ''s Reference'') True (Some 16),
       fieldSpec ''13C'' ''Time Indication'' False None,
       fieldSpec ''23B'' ''Bank Operation Code'' True None,
       fieldSpec ''23E'' ''Instruction Code'' False None,
       fieldSpec ''26T'' ''Transaction Type Code'' False None,
       fieldSpec ''32A'' ''Value Date/Currency/Amount'' True None,
       fieldSpec ''33B'' ''Currency/Instructed Amount'' False None,
       fieldSpec ''36'' ''Exchange Rate'' False None,
       fieldSpec ''50A'' ''Ordering Customer (BIC)'' False None,
       fieldSpec ''50F'' ''Ordering Customer (Party)'' False None,
       fieldSpec ''50K'' ''Ordering Customer (Name/Address)'' False None,
       fieldSpec ''51A'' ''Sending Institution'' False None,
       fieldSpec ''52A'' ''Ordering Institution (BIC)'' False None,
       fieldSpec ''52D'' ''Ordering Institution (Name/Address)'' False None,
       fieldSpec ''53A'' (''Sender'' @ [CHR 0x27] @ ''s Correspondent (BIC)'') False None,
       fieldSpec ''53B'' (''Sender'' @ [CHR 0x27] @ ''s Correspondent (Location)'') False None,
       fieldSpec ''53D'' (''Sender'' @ [CHR 0x27] @ ''s Correspondent (Name/Address)'') False None,
       fieldSpec ''54A'' (''Receiver'' @ [CHR 0x27] @ ''s Correspondent (BIC)'') False None,
       fieldSpec ''54B'' (''Receiver'' @ [CHR 0x27] @ ''s Correspondent (Location)'') False None,
       fieldSpec ''54D'' (''Receiver'' @ [CHR 0x27] @ ''s Correspondent (Name/Address)'') False None,
       fieldSpec ''55A'' ''Third Reimbursement Institution (BIC)'' False None,
       fieldSpec ''55B'' ''Third Reimbursement Institution (Location)'' False None,
       fieldSpec ''55D'' ''Third Reimbursement Institution (Name/Address)'' False None,
       fieldSpec ''56A'' ''Intermediary Institution (BIC)'' False None,
       fieldSpec ''56C'' ''Intermediary Institution (Account)'' False None,
       fieldSpec ''56D'' ''Intermediary Institution (Name/Address)'' False None,
       fieldSpec ''57A'' ''Account With Institution (BIC)'' False None,
       fieldSpec ''57B'' ''Account With Institution (Location)'' False None,
       fieldSpec ''57C'' ''Account With Institution (Account)'' False None,
       fieldSpec ''57D'' ''Account With Institution (Name/Address)'' False None,
       fieldSpec ''59'' ''Beneficiary Customer (Account)'' True None,
       fieldSpec ''59A'' ''Beneficiary Customer (BIC)'' False None,
       fieldSpec ''59F'' ''Beneficiary Customer (Party)'' False None,
       fieldSpec ''70'' ''Remittance Information'' False (Some 140),
       fieldSpec ''71A'' ''Details of Charges'' True None,
       fieldSpec ''71F'' (''Sender'' @ [CHR 0x27] @ ''s Charges'') False None,
       fieldSpec ''71G'' (''Receiver'' @ [CHR 0x27] @ ''s Charges'') False None,
       fieldSpec ''72'' ''Sender to Receiver Information'' False (Some 210),
       fieldSpec ''77B'' ''Regulatory Reporting'' False (Some 105),
       fieldSpec ''77T'' ''Envelope Contents'' False None ] \<rparr>"

definition MT202_SPEC :: MtMessageSpec where
  "MT202_SPEC = \<lparr> specType = ''MT202'', specFields = [
       fieldSpec ''20'' ''Transaction Reference Number'' True (Some 16),
       fieldSpec ''21'' ''Related Reference'' True (Some 16),
       fieldSpec ''13C'' ''Time Indication'' False None,
       fieldSpec ''32A'' ''Value Date/Currency/Amount'' True None,
       fieldSpec ''52A'' ''Ordering Institution (BIC)'' False None,
       fieldSpec ''52D'' ''Ordering Institution (Name/Address)'' False None,
       fieldSpec ''53A'' (''Sender'' @ [CHR 0x27] @ ''s Correspondent (BIC)'') False None,
       fieldSpec ''53B'' (''Sender'' @ [CHR 0x27] @ ''s Correspondent (Location)'') False None,
       fieldSpec ''53D'' (''Sender'' @ [CHR 0x27] @ ''s Correspondent (Name/Address)'') False None,
       fieldSpec ''54A'' (''Receiver'' @ [CHR 0x27] @ ''s Correspondent (BIC)'') False None,
       fieldSpec ''54B'' (''Receiver'' @ [CHR 0x27] @ ''s Correspondent (Location)'') False None,
       fieldSpec ''54D'' (''Receiver'' @ [CHR 0x27] @ ''s Correspondent (Name/Address)'') False None,
       fieldSpec ''56A'' ''Intermediary (BIC)'' False None,
       fieldSpec ''56D'' ''Intermediary (Name/Address)'' False None,
       fieldSpec ''57A'' ''Account With Institution (BIC)'' False None,
       fieldSpec ''57B'' ''Account With Institution (Location)'' False None,
       fieldSpec ''57D'' ''Account With Institution (Name/Address)'' False None,
       fieldSpec ''58A'' ''Beneficiary Institution (BIC)'' True None,
       fieldSpec ''58D'' ''Beneficiary Institution (Name/Address)'' False None,
       fieldSpec ''72'' ''Sender to Receiver Information'' False (Some 210) ] \<rparr>"

definition MT940_SPEC :: MtMessageSpec where
  "MT940_SPEC = \<lparr> specType = ''MT940'', specFields = [
       fieldSpec ''20'' ''Transaction Reference Number'' True (Some 16),
       fieldSpec ''21'' ''Related Reference'' False (Some 16),
       fieldSpec ''25'' ''Account Identification'' True (Some 35),
       fieldSpec ''25P'' ''Account Identification (Party)'' False None,
       fieldSpec ''28C'' ''Statement Number/Sequence Number'' True None,
       fieldSpec ''60F'' ''Opening Balance (First)'' True None,
       fieldSpec ''60M'' ''Opening Balance (Intermediate)'' False None,
       fieldSpec ''61'' ''Statement Line'' False None,
       fieldSpec ''62F'' ''Closing Balance (Final)'' True None,
       fieldSpec ''62M'' ''Closing Balance (Intermediate)'' False None,
       fieldSpec ''64'' ''Closing Available Balance'' False None,
       fieldSpec ''65'' ''Forward Available Balance'' False None,
       fieldSpec ''86'' ''Information to Account Owner'' False (Some 390) ] \<rparr>"

definition MT950_SPEC :: MtMessageSpec where
  "MT950_SPEC = \<lparr> specType = ''MT950'', specFields = [
       fieldSpec ''20'' ''Transaction Reference Number'' True (Some 16),
       fieldSpec ''25'' ''Account Identification'' True (Some 35),
       fieldSpec ''28C'' ''Statement Number/Sequence Number'' True None,
       fieldSpec ''60F'' ''Opening Balance (First)'' True None,
       fieldSpec ''60M'' ''Opening Balance (Intermediate)'' False None,
       fieldSpec ''61'' ''Statement Line'' False None,
       fieldSpec ''62F'' ''Closing Balance (Final)'' True None,
       fieldSpec ''62M'' ''Closing Balance (Intermediate)'' False None,
       fieldSpec ''64'' ''Closing Available Balance'' False None ] \<rparr>"

text \<open>
  \<open>MT_SPECS[key]\<close>.  The validator only looks up keys that begin with \<open>MT\<close>, and no
  property that an object literal inherits has such a name, so the lookup is the lookup
  in the four own keys.
\<close>

definition MT_SPECS :: "string \<Rightarrow> MtMessageSpec option" where
  "MT_SPECS = map_of [(''MT103'', MT103_SPEC), (''MT202'', MT202_SPEC),
                      (''MT940'', MT940_SPEC), (''MT950'', MT950_SPEC)]"

section \<open>validateMtMessage\<close>

record ValidationError =
  field :: string
  code :: string
  message :: string
  val :: "string option"

type_synonym ValidationWarning = ValidationError

record MtValidationResult =
  valid :: bool
  resMessageType :: string
  errors :: "ValidationError list"
  warnings :: "ValidationWarning list"
  parsedFields :: TextBlock

text \<open>
  The exceptions of the source.  The only operation of the validator that can throw is a
  method call on \<open>undefined\<close>, \<open>value.replace\<close> where \<open>value\<close> is the first element of
  an empty array: a \<open>TypeError\<close>.  The generator throws \<open>new Error(message)\<close>.
\<close>

datatype JsException = TypeError | Error string

datatype MtInput = RawText string | Decoded ParsedMtMessage

text \<open>The truth value of \<open>fields[tag]\<close>: an absent tag and the empty string are false, an
  array is true even when it is empty.\<close>

fun truthy :: "FieldValue option \<Rightarrow> bool" where
  "truthy None = False"
| "truthy (Some (Str s)) = (s \<noteq> [])"
| "truthy (Some (Arr ls)) = True"

text \<open>\<open>!fieldValue || (Array.isArray(fieldValue) && fieldValue.length === 0)\<close>\<close>

definition isMissing :: "FieldValue option \<Rightarrow> bool" where
  "isMissing v = (\<not> truthy v \<or> v = Some (Arr []))"

text \<open>\<open>Array.isArray(value) ? value.join('\n') : value\<close>\<close>

fun valueStr :: "FieldValue \<Rightarrow> string" where
  "valueStr (Str s) = s"
| "valueStr (Arr ls) = joinWith [LF] ls"

text \<open>\<open>Array.isArray(value) ? value[0] : value\<close>, which is \<open>undefined\<close> for an empty array.\<close>

fun firstLine :: "FieldValue \<Rightarrow> string option" where
  "firstLine (Str s) = Some s"
| "firstLine (Arr []) = None"
| "firstLine (Arr (l # ls)) = Some l"

text \<open>\<open>value.replace(/\s/g, '')\<close>\<close>

definition removeSpaces :: "string \<Rightarrow> string" where
  "removeSpaces s = filter (\<lambda>c. \<not> isSpace c) s"

text \<open>\<open>/^\d{6}[A-Z]{3}[\d,]+$/\<close> and \<open>/^[CD]\d{6}[A-Z]{3}[\d,]+$/\<close>\<close>

definition test32A :: "string \<Rightarrow> bool" where
  "test32A s =
     (length s \<ge> 10 \<and> list_all isDigit (take 6 s) \<and> list_all isUpper (take 3 (drop 6 s))
      \<and> list_all (\<lambda>c. isDigit c \<or> c = CHR '','') (drop 9 s))"

definition testBalance :: "string \<Rightarrow> bool" where
  "testBalance s =
     (case s of [] \<Rightarrow> False | c # r \<Rightarrow> (c = CHR ''C'' \<or> c = CHR ''D'') \<and> test32A r)"

definition missingFieldError :: "MtFieldSpec \<Rightarrow> ValidationError" where
  "missingFieldError f =
     \<lparr> field = tag f, code = ''MISSING_FIELD'',
       message = ''Mandatory field '' @ tag f @ '' ('' @ name f @ '') is missing'',
       val = None \<rparr>"

definition fieldTooLongError :: "string \<Rightarrow> nat \<Rightarrow> string \<Rightarrow> ValidationError" where
  "fieldTooLongError t n v =
     \<lparr> field = t, code = ''FIELD_TOO_LONG'',
       message = ''Field '' @ t @ '' exceeds maximum length of '' @ showNat n,
       val = Some v \<rparr>"

definition unknownFieldWarning :: "string \<Rightarrow> string \<Rightarrow> ValidationWarning" where
  "unknownFieldWarning t v =
     \<lparr> field = t, code = ''UNKNOWN_FIELD'', message = ''Unknown field tag: '' @ t,
       val = Some v \<rparr>"

text \<open>The loop over the mandatory field specifications.\<close>

definition mandatoryErrors :: "MtMessageSpec \<Rightarrow> TextBlock \<Rightarrow> ValidationError list" where
  "mandatoryErrors spec tb =
     concat (map (\<lambda>f.
       if mandatory f \<and> isMissing (map_of tb (tag f)) then [missingFieldError f] else [])
       (specFields spec))"

text \<open>
  The body of the loop over \<open>Object.entries(parsed.textBlock)\<close>, which pushes to the
  errors or to the warnings: what one entry adds to each.  \<open>fieldSpec.maxLength && ...\<close>
  is false for an absent maximum and for the maximum 0.
\<close>

definition formatErrors :: "MtMessageSpec \<Rightarrow> (string \<times> FieldValue) \<Rightarrow> ValidationError list" where
  "formatErrors spec e =
     (case find (\<lambda>f. tag f = fst e) (specFields spec) of
        None \<Rightarrow> []
      | Some f \<Rightarrow>
          (case maxLength f of
             None \<Rightarrow> []
           | Some n \<Rightarrow>
               if n \<noteq> 0 \<and> length (valueStr (snd e)) > n
               then [fieldTooLongError (fst e) n (valueStr (snd e))]
               else []))"

definition formatWarnings :: "MtMessageSpec \<Rightarrow> (string \<times> FieldValue) \<Rightarrow> ValidationWarning list" where
  "formatWarnings spec e =
     (case find (\<lambda>f. tag f = fst e) (specFields spec) of
        None \<Rightarrow> [unknownFieldWarning (fst e) (valueStr (snd e))]
      | Some f \<Rightarrow> [])"

definition beneficiaryError :: ValidationError where
  "beneficiaryError =
     \<lparr> field = ''59'', code = ''MISSING_FIELD'',
       message = ''Beneficiary customer (field 59, 59A, or 59F) is required'', val = None \<rparr>"

text \<open>The four checks of \<open>validateMt103Specifics\<close>, in the order of the source: what each
  pushes.  The first one throws when field 32A is an empty array.\<close>

definition check32A :: "(string \<Rightarrow> FieldValue option) \<Rightarrow> JsException + ValidationError list" where
  "check32A flds =
     (let field32A = flds ''32A''
      in if truthy field32A then
           (case firstLine (the field32A) of
              None \<Rightarrow> Inl TypeError
            | Some v \<Rightarrow>
                if \<not> test32A (removeSpaces v)
                then Inr [\<lparr> field = ''32A'', code = ''INVALID_FORMAT'',
                            message = ''Field 32A format is invalid. Expected: YYMMDDCCCNNNN,NN'',
                            val = Some v \<rparr>]
                else Inr [])
         else Inr [])"

definition check71A :: "(string \<Rightarrow> FieldValue option) \<Rightarrow> ValidationError list" where
  "check71A flds =
     (let field71A = flds ''71A''
      in if truthy field71A
            \<and> firstLine (the field71A) \<notin> {Some ''BEN'', Some ''OUR'', Some ''SHA''}
         then [\<lparr> field = ''71A'', code = ''INVALID_VALUE'',
                 message = ''Field 71A must be BEN, OUR, or SHA'',
                 val = firstLine (the field71A) \<rparr>]
         else [])"

definition checkBeneficiary :: "(string \<Rightarrow> FieldValue option) \<Rightarrow> ValidationError list" where
  "checkBeneficiary flds =
     (if \<not> truthy (flds ''59'') \<and> \<not> truthy (flds ''59A'') \<and> \<not> truthy (flds ''59F'')
      then [beneficiaryError] else [])"

definition checkOrderingCustomer :: "(string \<Rightarrow> FieldValue option) \<Rightarrow> ValidationWarning list" where
  "checkOrderingCustomer flds =
     (if \<not> truthy (flds ''50A'') \<and> \<not> truthy (flds ''50F'') \<and> \<not> truthy (flds ''50K'')
      then [\<lparr> field = ''50'', code = ''MISSING_FIELD'',
              message = ''Ordering customer (field 50A, 50F, or 50K) is recommended'',
              val = None \<rparr>]
      else [])"

definition validateMt103Specifics ::
  "ParsedMtMessage \<Rightarrow> ValidationError list \<Rightarrow> ValidationWarning list
     \<Rightarrow> JsException + (ValidationError list \<times> ValidationWarning list)" where
  "validateMt103Specifics parsed errs warns =
     (let flds = map_of (textBlock parsed)
      in case check32A flds of
           Inl e \<Rightarrow> Inl e
         | Inr e32 \<Rightarrow>
             Inr (errs @ e32 @ check71A flds @ checkBeneficiary flds,
                  warns @ checkOrderingCustomer flds))"

text \<open>The loop over the six balance tags: it stops with the exception at the first tag whose
  value is an empty array, and collects a warning for every other value of the wrong shape.\<close>

fun balanceWarnings :: "(string \<Rightarrow> FieldValue option) \<Rightarrow> string list \<Rightarrow> JsException + ValidationWarning list" where
  "balanceWarnings flds [] = Inr []"
| "balanceWarnings flds (t # ts) =
     (if truthy (flds t) then
        (case firstLine (the (flds t)) of
           None \<Rightarrow> Inl TypeError
         | Some balanceValue \<Rightarrow>
             (case balanceWarnings flds ts of
                Inl e \<Rightarrow> Inl e
              | Inr ws \<Rightarrow>
                  Inr ((if \<not> testBalance (removeSpaces balanceValue)
                        then [\<lparr> field = t, code = ''INVALID_FORMAT'',
                                message = ''Field '' @ t @ '' format may be invalid. Expected: D/CYYMMDDCCCNNNN,NN'',
                                val = Some balanceValue \<rparr>]
                        else []) @ ws)))
      else balanceWarnings flds ts)"

definition checkOpeningBalance :: "(string \<Rightarrow> FieldValue option) \<Rightarrow> ValidationError list" where
  "checkOpeningBalance flds =
     (if \<not> truthy (flds ''60F'') \<and> \<not> truthy (flds ''60M'')
      then [\<lparr> field = ''60F'', code = ''MISSING_FIELD'',
              message = ''Opening balance (field 60F or 60M) is required'', val = None \<rparr>]
      else [])"

definition checkClosingBalance :: "(string \<Rightarrow> FieldValue option) \<Rightarrow> ValidationError list" where
  "checkClosingBalance flds =
     (if \<not> truthy (flds ''62F'') \<and> \<not> truthy (flds ''62M'')
      then [\<lparr> field = ''62F'', code = ''MISSING_FIELD'',
              message = ''Closing balance (field 62F or 62M) is required'', val = None \<rparr>]
      else [])"

definition validateStatementSpecifics ::
  "ParsedMtMessage \<Rightarrow> ValidationError list \<Rightarrow> ValidationWarning list
     \<Rightarrow> JsException + (ValidationError list \<times> ValidationWarning list)" where
  "validateStatementSpecifics parsed errs warns =
     (let flds = map_of (textBlock parsed)
      in case balanceWarnings flds [''60F'', ''60M'', ''62F'', ''62M'', ''64'', ''65''] of
           Inl e \<Rightarrow> Inl e
         | Inr ws \<Rightarrow>
             Inr (errs @ checkOpeningBalance flds @ checkClosingBalance flds, warns @ ws))"

definition unknownTypeError :: "string \<Rightarrow> ValidationError" where
  "unknownTypeError mt =
     \<lparr> field = ''messageType'', code = ''UNKNOWN_TYPE'',
       message = ''Unknown message type: '' @ mt, val = Some mt \<rparr>"

text \<open>\<open>typeof message === 'string' ? parseMtMessage(message) : message\<close>\<close>

fun parsedOf :: "MtInput \<Rightarrow> ParsedMtMessage" where
  "parsedOf (RawText raw) = parseMtMessage raw"
| "parsedOf (Decoded p) = p"

definition validateMtMessage :: "MtInput \<Rightarrow> JsException + MtValidationResult" where
  "validateMtMessage msg =
     (let parsed = parsedOf msg;
          mt = replaceFirst ''MT'' [] (messageType parsed)
      in case MT_SPECS (''MT'' @ mt) of
           None \<Rightarrow>
             Inr \<lparr> valid = False, resMessageType = messageType parsed,
                   errors = [unknownTypeError (messageType parsed)], warnings = [],
                   parsedFields = textBlock parsed \<rparr>
         | Some spec \<Rightarrow>
             let entries = objectEntries (textBlock parsed);
                 errs = mandatoryErrors spec (textBlock parsed) @ concat (map (formatErrors spec) entries);
                 warns = concat (map (formatWarnings spec) entries);
                 specific = (if mt = ''103'' then validateMt103Specifics parsed errs warns
                             else if mt = ''940'' \<or> mt = ''950''
                             then validateStatementSpecifics parsed errs warns
                             else Inr (errs, warns))
             in (case specific of
                   Inl e \<Rightarrow> Inl e
                 | Inr (errs', warns') \<Rightarrow>
                     Inr \<lparr> valid = (errs' = []), resMessageType = messageType parsed,
                           errors = errs', warnings = warns', parsedFields = textBlock parsed \<rparr>))"

section \<open>validateBic\<close>

text \<open>
  \<open>s.toUpperCase()\<close> on the code units below 256: the letters a to z and the accented
  letters go to their capitals, the sharp s becomes \<open>SS\<close>.  The capitals of the micro
  sign and of y with diaeresis are code units above 255; the model keeps these two
  characters, which no test of the code tells from their capitals (neither is a letter A
  to Z, a digit or white space).
\<close>

definition upperChar :: "char \<Rightarrow> string" where
  "upperChar c =
     (let n = (of_char c :: nat)
      in if 97 \<le> n \<and> n \<le> 122 then [char_of (n - 32)]
         else if n = 223 then ''SS''
         else if 224 \<le> n \<and> n \<le> 254 \<and> n \<noteq> 247 then [char_of (n - 32)]
         else [c])"

definition toUpperCase :: "string \<Rightarrow> string" where
  "toUpperCase s = concat (map upperChar s)"

definition normalizeBic :: "string \<Rightarrow> string" where
  "normalizeBic b = removeSpaces (toUpperCase b)"

text \<open>\<open>BIC_PATTERN = /^[A-Z]{4}[A-Z]{2}[A-Z0-9]{2}([A-Z0-9]{3})?$/\<close>\<close>

definition testBicPattern :: "string \<Rightarrow> bool" where
  "testBicPattern s =
     ((length s = 8 \<or> length s = 11) \<and> list_all isUpper (take 6 s)
      \<and> list_all (\<lambda>c. isUpper c \<or> isDigit c) (drop 6 s))"

text \<open>
  The country table of the BIC directory module.  \<open>COUNTRY_CODES[code]\<close> is looked up
  with a code of at most two characters, and no inherited property has so short a name,
  so the lookup is the lookup in the table.
\<close>

definition COUNTRY_CODES :: "(string \<times> string) list" where
  "COUNTRY_CODES =
     [(''US'', ''United States''), (''GB'', ''United Kingdom''), (''DE'', ''Germany''),
      (''FR'', ''France''), (''CH'', ''Switzerland''), (''JP'', ''Japan''),
      (''CN'', ''China''), (''CA'', ''Canada''), (''AU'', ''Australia''),
      (''SG'', ''Singapore''), (''HK'', ''Hong Kong''), (''NL'', ''Netherlands''),
      (''ES'', ''Spain''), (''IT'', ''Italy''), (''IN'', ''India''), (''BR'', ''Brazil''),
      (''AE'', ''United Arab Emirates''), (''ZA'', ''South Africa''),
      (''KR'', ''South Korea''), (''SE'', ''Sweden''), (''NO'', ''Norway''),
      (''DK'', ''Denmark''), (''FI'', ''Finland''), (''AT'', ''Austria''),
      (''BE'', ''Belgium''), (''IE'', ''Ireland''), (''PT'', ''Portugal''),
      (''PL'', ''Poland''), (''CZ'', ''Czech Republic''), (''RU'', ''Russia''),
      (''MX'', ''Mexico''), (''AR'', ''Argentina''), (''CL'', ''Chile''),
      (''CO'', ''Colombia''), (''TH'', ''Thailand''), (''MY'', ''Malaysia''),
      (''ID'', ''Indonesia''), (''PH'', ''Philippines''), (''VN'', ''Vietnam''),
      (''NZ'', ''New Zealand''), (''SA'', ''Saudi Arabia''), (''QA'', ''Qatar''),
      (''KW'', ''Kuwait''), (''EG'', ''Egypt''), (''NG'', ''Nigeria''),
      (''KE'', ''Kenya'')]"

record BicComponents =
  institutionCode :: string
  countryCode :: string
  locationCode :: string
  branchCode :: string

record BicValidationResult =
  bicValid :: bool
  bic :: string
  normalized :: string
  components :: BicComponents
  bicErrors :: "string list"

definition validateBic :: "string \<Rightarrow> BicValidationResult" where
  "validateBic b =
     (let norm = normalizeBic b
      in if norm = [] then
           \<lparr> bicValid = False, bic = b, normalized = [],
             components = \<lparr> institutionCode = [], countryCode = [], locationCode = [],
                            branchCode = [] \<rparr>,
             bicErrors = [''BIC code is required''] \<rparr>
         else
           let e1 = (if length norm \<noteq> 8 \<and> length norm \<noteq> 11
                     then [''BIC must be 8 or 11 characters, got '' @ showNat (length norm)]
                     else []);
               e2 = (if \<not> testBicPattern norm
                     then [''BIC format is invalid. Expected format: AAAABBCCXXX or AAAABBCC'']
                     else []);
               comps = \<lparr> institutionCode = slice 0 4 norm, countryCode = slice 4 6 norm,
                         locationCode = slice 6 8 norm,
                         branchCode = (if length norm = 11 then slice 8 11 norm else ''XXX'') \<rparr>;
               e3 = (if countryCode comps \<noteq> [] \<and> map_of COUNTRY_CODES (countryCode comps) = None
                     then [''Unknown country code: '' @ countryCode comps] else []);
               e4 = (if locationCode comps \<noteq> []
                        \<and> (hd (locationCode comps) = CHR ''0'' \<or> hd (locationCode comps) = CHR ''1'')
                     then [''Location code first character cannot be 0 or 1''] else []);
               errs = e1 @ e2 @ e3 @ e4
           in \<lparr> bicValid = (errs = []), bic = b, normalized = norm, components = comps,
                bicErrors = errs \<rparr>)"

section \<open>generateMtMessage\<close>

record MtMessageInput =
  inMessageType :: string
  senderBic :: string
  receiverBic :: string
  inFields :: "string \<Rightarrow> string option"

text \<open>The truth value of \<open>fields.key\<close>: \<open>undefined\<close> and the empty string are false.\<close>

definition given :: "string option \<Rightarrow> bool" where
  "given v = (case v of Some s \<Rightarrow> s \<noteq> [] | None \<Rightarrow> False)"

text \<open>
  \<open>TABLE[key]\<close> as a truth value, for a table that is an object literal: an own
  property with a non-empty text, or a property inherited from \<open>Object.prototype\<close>, whose
  values are functions or objects and so are true.
\<close>

definition objectPrototypeKeys :: "string list" where
  "objectPrototypeKeys =
     [''constructor'', ''__defineGetter__'', ''__defineSetter__'', ''hasOwnProperty'',
      ''__lookupGetter__'', ''__lookupSetter__'', ''isPrototypeOf'', ''propertyIsEnumerable'',
      ''toString'', ''valueOf'', ''__proto__'', ''toLocaleString'']"

definition hasTruthyProperty :: "(string \<times> string) list \<Rightarrow> string \<Rightarrow> bool" where
  "hasTruthyProperty table k =
     (case map_of table k of Some v \<Rightarrow> v \<noteq> [] | None \<Rightarrow> k \<in> set objectPrototypeKeys)"

definition BANK_OPERATION_CODES :: "(string \<times> string) list" where
  "BANK_OPERATION_CODES =
     [(''CRED'', ''Credit Transfer''), (''CRTS'', ''Credit Transfer for Test''),
      (''SPAY'', ''Single Payment''), (''SPRI'', ''Priority Payment''),
      (''SSTD'', ''Standard Payment'')]"

definition CHARGE_CODES :: "(string \<times> string) list" where
  "CHARGE_CODES =
     [(''BEN'', ''All charges paid by beneficiary''),
      (''OUR'', ''All charges paid by ordering customer''),
      (''SHA'', ''Charges shared between ordering customer and beneficiary'')]"

text \<open>
  \<open>formatSwiftAmount\<close> of the generator.  The floating-point part of it is a parameter:
  \<open>toFixed2 amount\<close> is \<open>None\<close> when \<open>parseFloat(amount)\<close> is NaN and otherwise the text
  of \<open>parseFloat(amount).toFixed(2)\<close>.
\<close>

definition formatSwiftAmount :: "(string \<Rightarrow> string option) \<Rightarrow> string \<Rightarrow> JsException + string" where
  "formatSwiftAmount toFixed2 amount =
     (case toFixed2 amount of
        None \<Rightarrow> Inl (Error (''Invalid amount: '' @ amount))
      | Some formatted \<Rightarrow> Inr (replaceFirst ''.'' '','' formatted))"

definition normalizeBicTo12 :: "string \<Rightarrow> string" where
  "normalizeBicTo12 b =
     (if length b = 8 then b @ ''XXXX'' else if length b = 11 then b @ ''X'' else b)"

definition generateBlock1 :: "string \<Rightarrow> string" where
  "generateBlock1 sender = ''{1:F01'' @ sender @ ''0000'' @ ''000000'' @ ''}''"

definition generateBlock2 :: "string \<Rightarrow> string \<Rightarrow> string" where
  "generateBlock2 mt receiver = ''{2:I'' @ mt @ receiver @ ''N'' @ [] @ ''}''"

definition generateBlock3 :: "(string \<Rightarrow> string option) \<Rightarrow> string" where
  "generateBlock3 flds =
     (let headerFields =
            (if given (flds ''uetr'') then [''{121:'' @ the (flds ''uetr'') @ ''}''] else [])
            @ (if given (flds ''mur'') then [''{108:'' @ the (flds ''mur'') @ ''}''] else [])
      in if headerFields = [] then [] else ''{3:'' @ concat headerFields @ ''}'')"

definition generateBlock5 :: string where
  "generateBlock5 = ''{5:}''"

text \<open>An optional one-line field: \<open>if (fields.key) lines.push(`:TAG:${fields.key}`)\<close>.\<close>

definition pushField :: "string \<Rightarrow> string option \<Rightarrow> string list" where
  "pushField t v = (if given v then [CHR '':'' # t @ CHR '':'' # the v] else [])"

text \<open>Fields 50K and 59: the account on a line of its own after a slash, then the name.\<close>

definition pushParty :: "string \<Rightarrow> string option \<Rightarrow> string option \<Rightarrow> string list" where
  "pushParty t account nm =
     (if given account \<or> given nm
      then [CHR '':'' # t @ '':''
            @ (if given account then ''/'' @ the account @ [CR, LF] else [])
            @ (if given nm then the nm else [])]
      else [])"

text \<open>Field 32A, which formats the amount and so can throw.\<close>

definition push32A :: "(string \<Rightarrow> string option) \<Rightarrow> (string \<Rightarrow> string option) \<Rightarrow> JsException + string list" where
  "push32A toFixed2 flds =
     (if given (flds ''valueDate'') \<and> given (flds ''currency'') \<and> given (flds ''amount'') then
        (case formatSwiftAmount toFixed2 (the (flds ''amount'')) of
           Inl e \<Rightarrow> Inl e
         | Inr formattedAmount \<Rightarrow>
             Inr ['':32A:'' @ the (flds ''valueDate'') @ the (flds ''currency'') @ formattedAmount])
      else Inr [])"

definition push33B :: "(string \<Rightarrow> string option) \<Rightarrow> (string \<Rightarrow> string option) \<Rightarrow> JsException + string list" where
  "push33B toFixed2 flds =
     (if given (flds ''instructedCurrency'') \<and> given (flds ''instructedAmount'') then
        (case formatSwiftAmount toFixed2 (the (flds ''instructedAmount'')) of
           Inl e \<Rightarrow> Inl e
         | Inr formattedAmount \<Rightarrow>
             Inr ['':33B:'' @ the (flds ''instructedCurrency'') @ formattedAmount])
      else Inr [])"

text \<open>\<open>lines.join('\r\n') + '\r\n'\<close>\<close>

definition contentOf :: "string list \<Rightarrow> string" where
  "contentOf lines = joinWith [CR, LF] lines @ [CR, LF]"

definition generateMT103Content :: "(string \<Rightarrow> string option) \<Rightarrow> (string \<Rightarrow> string option) \<Rightarrow> JsException + string" where
  "generateMT103Content toFixed2 flds =
     (let opCode = (if given (flds ''bankOperationCode'') then the (flds ''bankOperationCode'') else ''CRED'');
          charges = (if given (flds ''charges'') then the (flds ''charges'') else ''SHA'')
      in if \<not> hasTruthyProperty BANK_OPERATION_CODES opCode
         then Inl (Error (''Invalid bank operation code: '' @ opCode))
         else
           (case push32A toFixed2 flds of
              Inl e \<Rightarrow> Inl e
            | Inr l32 \<Rightarrow>
                (case push33B toFixed2 flds of
                   Inl e \<Rightarrow> Inl e
                 | Inr l33 \<Rightarrow>
                     if \<not> hasTruthyProperty CHARGE_CODES charges
                     then Inl (Error (''Invalid charge code: '' @ charges))
                     else Inr (contentOf
                       (pushField ''20'' (flds ''senderReference'')
                        @ ['':23B:'' @ opCode]
                        @ l32 @ l33
                        @ pushParty ''50K'' (flds ''orderingCustomerAccount'') (flds ''orderingCustomerName'')
                        @ pushField ''52A'' (flds ''orderingInstitution'')
                        @ pushField ''53A'' (flds ''sendersCorrespondent'')
                        @ pushField ''54A'' (flds ''receiversCorrespondent'')
                        @ pushField ''56A'' (flds ''intermediaryInstitution'')
                        @ pushField ''57A'' (flds ''accountWithInstitution'')
                        @ pushParty ''59'' (flds ''beneficiaryAccount'') (flds ''beneficiaryName'')
                        @ pushField ''70'' (flds ''remittanceInfo'')
                        @ ['':71A:'' @ charges]
                        @ pushField ''72'' (flds ''senderToReceiverInfo''))))))"

definition generateMT202Content :: "(string \<Rightarrow> string option) \<Rightarrow> (string \<Rightarrow> string option) \<Rightarrow> JsException + string" where
  "generateMT202Content toFixed2 flds =
     (case push32A toFixed2 flds of
        Inl e \<Rightarrow> Inl e
      | Inr l32 \<Rightarrow>
          Inr (contentOf
            (pushField ''20'' (flds ''transactionReference'')
             @ pushField ''21'' (flds ''relatedReference'')
             @ l32
             @ pushField ''52A'' (flds ''orderingInstitution'')
             @ pushField ''53A'' (flds ''sendersCorrespondent'')
             @ pushField ''54A'' (flds ''receiversCorrespondent'')
             @ pushField ''56A'' (flds ''intermediary'')
             @ pushField ''57A'' (flds ''accountWithInstitution'')
             @ pushField ''58A'' (flds ''beneficiaryInstitution'')
             @ pushField ''72'' (flds ''senderToReceiverInfo''))))"

text \<open>\<open>s.split('|')\<close>\<close>

fun splitBar :: "string \<Rightarrow> string list" where
  "splitBar [] = [[]]"
| "splitBar (c # cs) =
     (if c = CHR ''|'' then [] # splitBar cs
      else (case splitBar cs of l # ls \<Rightarrow> (c # l) # ls | [] \<Rightarrow> [[c]]))"

definition pushStatementLines :: "string option \<Rightarrow> string list" where
  "pushStatementLines v = (if given v then map (\<lambda>line. '':61:'' @ line) (splitBar (the v)) else [])"

definition generateMT940Content :: "(string \<Rightarrow> string option) \<Rightarrow> string" where
  "generateMT940Content flds =
     contentOf
       (pushField ''20'' (flds ''transactionReference'')
        @ pushField ''25'' (flds ''accountId'')
        @ pushField ''28C'' (flds ''statementNumber'')
        @ pushField ''60F'' (flds ''openingBalance'')
        @ pushStatementLines (flds ''statementLines'')
        @ pushField ''62F'' (flds ''closingBalance'')
        @ pushField ''64'' (flds ''closingAvailableBalance''))"

definition generateMT950Content :: "(string \<Rightarrow> string option) \<Rightarrow> string" where
  "generateMT950Content flds =
     contentOf
       (pushField ''20'' (flds ''transactionReference'')
        @ pushField ''25'' (flds ''accountId'')
        @ pushField ''28C'' (flds ''statementNumber'')
        @ pushField ''60F'' (flds ''openingBalance'')
        @ pushStatementLines (flds ''statementLines'')
        @ pushField ''62F'' (flds ''closingBalance''))"

definition generateBlock4 :: "(string \<Rightarrow> string option) \<Rightarrow> string \<Rightarrow> (string \<Rightarrow> string option) \<Rightarrow> JsException + string" where
  "generateBlock4 toFixed2 mt flds =
     (case (if mt = ''103'' then generateMT103Content toFixed2 flds
            else if mt = ''202'' then generateMT202Content toFixed2 flds
            else if mt = ''940'' then Inr (generateMT940Content flds)
            else if mt = ''950'' then Inr (generateMT950Content flds)
            else Inl (Error (''Unsupported message type: MT'' @ mt))) of
        Inl e \<Rightarrow> Inl e
      | Inr content \<Rightarrow> Inr (''{4:'' @ [CR, LF] @ content @ ''-}''))"

definition generateMtMessage :: "(string \<Rightarrow> string option) \<Rightarrow> MtMessageInput \<Rightarrow> JsException + string" where
  "generateMtMessage toFixed2 input =
     (let mt = replaceFirst ''MT'' [] (inMessageType input);
          senderValidation = validateBic (senderBic input);
          receiverValidation = validateBic (receiverBic input)
      in if \<not> bicValid senderValidation
         then Inl (Error (''Invalid sender BIC: '' @ joinWith '', '' (bicErrors senderValidation)))
         else if \<not> bicValid receiverValidation
         then Inl (Error (''Invalid receiver BIC: '' @ joinWith '', '' (bicErrors receiverValidation)))
         else
           (case generateBlock4 toFixed2 mt (inFields input) of
              Inl e \<Rightarrow> Inl e
            | Inr block4 \<Rightarrow>
                Inr (generateBlock1 (normalizeBicTo12 (normalized senderValidation))
                     @ generateBlock2 mt (normalizeBicTo12 (normalized receiverValidation))
                     @ generateBlock3 (inFields input)
                     @ block4
                     @ generateBlock5)))"

section \<open>Sample messages\<close>

definition sampleMT202 :: string where
  "sampleMT202 =
     ''{2:I202}{4:'' @ [CR, LF] @ '':20:A'' @ [CR, LF] @ '':21:B'' @ [CR, LF]
       @ '':32A:240101USD1,00'' @ [CR, LF] @ '':58A:X'' @ [CR, LF] @ ''-}''"

definition sampleMT202Fields :: TextBlock where
  "sampleMT202Fields =
     [(''20'', Str ''A''), (''21'', Str ''B''), (''32A'', Str ''240101USD1,00''), (''58A'', Str ''X'')]"




definition repeatedTagBlock :: string where
  "repeatedTagBlock =
     [CR, LF] @ '':20:FIRST'' @ [CR, LF] @ '':21:REL'' @ [CR, LF] @ '':20:SECOND'' @ [CR, LF] @ ''-''"

section \<open>Properties of the decoder and the validator\<close>

subsection \<open>The message type of a decoded message\<close>

lemma parse_messageType_shape:
  "messageType (parseMtMessage raw) = [] \<or> (\<exists>t. messageType (parseMtMessage raw) = ''MT'' @ t)"
  by (simp add: parseMtMessage_def Let_def parseApplicationHeader_def emptyApplicationHeader_def
      split: option.splits)

lemma MT_SPECS_dom: "MT_SPECS k = None \<longleftrightarrow> k \<notin> {''MT103'', ''MT202'', ''MT940'', ''MT950''}"
  by (simp add: MT_SPECS_def)

lemma specKey_parse:
  "''MT'' @ replaceFirst ''MT'' [] (messageType (parseMtMessage raw)) = 
    (if messageType (parseMtMessage raw) = [] then ''MT'' else messageType (parseMtMessage raw))"
  using parse_messageType_shape[of raw] by auto

subsection \<open>The tokenizer never stores an empty array\<close>

lemma firstLine_None: "firstLine v = None \<longleftrightarrow> v = Arr []"
  by (cases v rule: firstLine.cases) auto

lemma fieldValueOf_nonempty: "fieldValueOf ls \<noteq> Arr []"
  by (auto simp: fieldValueOf_def)

lemma saveField_noEmptyArr:
  "\<forall>t. map_of flds t \<noteq> Some (Arr []) \<Longrightarrow> map_of (saveField flds ctag cur) t \<noteq> Some (Arr [])"
  by (simp add: saveField_def update_conv' fieldValueOf_nonempty)

lemma tokenize_noEmptyArr:
  "\<forall>t. map_of flds t \<noteq> Some (Arr []) \<Longrightarrow> map_of (tokenize flds ctag cur ls) t \<noteq> Some (Arr [])"
proof (induction ls arbitrary: flds ctag cur)
  case Nil
  then show ?case by (simp add: saveField_noEmptyArr)
next
  case (Cons l ls)
  show ?case
  proof (cases "matchTagLine l")
    case None
    then show ?thesis using Cons.IH[OF Cons.prems] by simp
  next
    case (Some a)
    obtain tg ct where a: "a = (tg, ct)" by (cases a)
    have "\<forall>t. map_of (saveField flds ctag cur) t \<noteq> Some (Arr [])"
      using Cons.prems by (simp add: saveField_noEmptyArr)
    from Cons.IH[OF this] show ?thesis using Some a by simp
  qed
qed

lemma parseTextBlock_noEmptyArr: "map_of (parseTextBlock b) t \<noteq> Some (Arr [])"
  unfolding parseTextBlock_def by (rule tokenize_noEmptyArr) simp

lemma parse_noEmptyArr: "map_of (textBlock (parseMtMessage raw)) t \<noteq> Some (Arr [])"
  by (simp add: parseMtMessage_def Let_def parseTextBlock_noEmptyArr split: option.splits)

lemma balanceWarnings_total:
  "\<forall>t. flds t \<noteq> Some (Arr []) \<Longrightarrow> \<exists>ws. balanceWarnings flds ts = Inr ws"
proof (induction ts)
  case Nil
  then show ?case by simp
next
  case (Cons t ts)
  then obtain ws where ws: "balanceWarnings flds ts = Inr ws" by blast
  show ?case
  proof (cases "truthy (flds t)")
    case False
    then show ?thesis using ws by simp
  next
    case True
    then obtain v where v: "flds t = Some v" by (cases "flds t") auto
    with Cons.prems have "v \<noteq> Arr []" by auto
    then obtain l where "firstLine v = Some l" using firstLine_None[of v] by (cases "firstLine v") auto
    then show ?thesis using True v ws by simp
  qed
qed

lemma check32A_total:
  "\<forall>t. flds t \<noteq> Some (Arr []) \<Longrightarrow> \<exists>x. check32A flds = Inr x"
proof -
  assume a: "\<forall>t. flds t \<noteq> Some (Arr [])"
  show ?thesis
  proof (cases "flds ''32A''")
    case None
    then show ?thesis by (simp add: check32A_def Let_def)
  next
    case (Some v)
    with a have "v \<noteq> Arr []" by metis
    then obtain l where "firstLine v = Some l"
      using firstLine_None[of v] by (cases "firstLine v") auto
    then show ?thesis using Some by (simp add: check32A_def Let_def)
  qed
qed

lemma mt103_total:
  "\<forall>t. map_of (textBlock p) t \<noteq> Some (Arr []) \<Longrightarrow> \<exists>x. validateMt103Specifics p es ws = Inr x"
proof -
  assume a: "\<forall>t. map_of (textBlock p) t \<noteq> Some (Arr [])"
  from check32A_total[OF this] obtain x where "check32A (map_of (textBlock p)) = Inr x" by blast
  then show ?thesis by (simp add: validateMt103Specifics_def Let_def)
qed

lemma statement_total:
  "\<forall>t. map_of (textBlock p) t \<noteq> Some (Arr []) \<Longrightarrow> \<exists>x. validateStatementSpecifics p es ws = Inr x"
proof -
  assume a: "\<forall>t. map_of (textBlock p) t \<noteq> Some (Arr [])"
  from balanceWarnings_total[OF this, of "[''60F'', ''60M'', ''62F'', ''62M'', ''64'', ''65'']"]
  obtain w where "balanceWarnings (map_of (textBlock p)) [''60F'', ''60M'', ''62F'', ''62M'', ''64'', ''65''] = Inr w"
    by blast
  then show ?thesis by (simp add: validateStatementSpecifics_def Let_def)
qed

lemma validate_total_wf:
  assumes "\<forall>t. map_of (textBlock p) t \<noteq> Some (Arr [])"
  shows "\<exists>r. validateMtMessage (Decoded p) = Inr r"
proof (cases "MT_SPECS (''MT'' @ replaceFirst ''MT'' [] (messageType p))")
  case None
  then show ?thesis by (simp add: validateMtMessage_def Let_def)
next
  case (Some spec)
  let ?es = "mandatoryErrors spec (textBlock p) @ concat (map (formatErrors spec) (objectEntries (textBlock p)))"
  let ?ws = "concat (map (formatWarnings spec) (objectEntries (textBlock p)))"
  obtain x where x: "validateMt103Specifics p ?es ?ws = Inr x" using mt103_total[OF assms] by blast
  obtain y where y: "validateStatementSpecifics p ?es ?ws = Inr y" using statement_total[OF assms] by blast
  show ?thesis using Some x y
    by (cases x; cases y) (simp add: validateMtMessage_def Let_def)
qed

lemma validate_raw_decoded: "validateMtMessage (RawText raw) = validateMtMessage (Decoded (parseMtMessage raw))"
  by (simp add: validateMtMessage_def)

lemma validate_total_raw: "\<exists>r. validateMtMessage (RawText raw) = Inr r"
  unfolding validate_raw_decoded by (rule validate_total_wf) (simp add: parse_noEmptyArr)


subsection \<open>The shape of a validation result\<close>


















subsection \<open>Removing a mandatory tag of a credit transfer\<close>











subsection \<open>Input without block delimiters\<close>

lemma matchBody_no_close: "CHR ''}'' \<notin> set s \<Longrightarrow> matchBody inner acc s = None"
  by (induction s arbitrary: inner acc) auto

lemma matchBlockAt_no_close: "CHR ''}'' \<notin> set s \<Longrightarrow> matchBlockAt s = None"
  by (auto simp: matchBlockAt_def matchBody_no_close split: list.splits)

lemma matchBlockAt_no_open: "CHR ''{'' \<notin> set s \<Longrightarrow> matchBlockAt s = None"
  by (auto simp: matchBlockAt_def split: list.splits)

lemma scanBlocks_no_braces:
  "CHR ''{'' \<notin> set s \<or> CHR ''}'' \<notin> set s \<Longrightarrow> scanBlocks s = []"
proof (induction s)
  case Nil
  then show ?case by simp
next
  case (Cons c cs)
  then have "matchBlockAt (c # cs) = None"
    using matchBlockAt_no_close[of "c # cs"] matchBlockAt_no_open[of "c # cs"] by blast
  moreover have "scanBlocks cs = []" using Cons by auto
  ultimately show ?case by simp
qed

lemma set_trim: "set (trim s) \<subseteq> set s"
proof -
  have "set (trim s) = set (dropWhile isSpace (rev (dropWhile isSpace s)))"
    by (simp add: trim_def)
  also have "\<dots> \<subseteq> set (rev (dropWhile isSpace s))" by (rule set_dropWhileD[THEN subsetI])
  also have "\<dots> \<subseteq> set s" using set_dropWhileD[of _ isSpace s] by auto
  finally show ?thesis .
qed

lemma parseTextBlock_empty: "parseTextBlock [] = []"
  by (simp add: parseTextBlock_def stripNewlines_def saveField_def matchTagLine_def)

subsection \<open>The tokenizer loop\<close>

lemma matchTagLine_tag_nonempty: "matchTagLine l = Some (t, c) \<Longrightarrow> t \<noteq> []"
  by (auto simp: matchTagLine_def split: list.splits if_splits)

lemma matchTagLine_dash: "matchTagLine ''-'' = None"
  by (simp add: matchTagLine_def)

lemma tokenize_prefix:
  "\<exists>flds' ctag' cur'. \<forall>rest. tokenize flds ctag cur (pre @ rest) = tokenize flds' ctag' cur' rest"
proof (induction pre arbitrary: flds ctag cur)
  case Nil
  then show ?case by auto
next
  case (Cons l pre)
  show ?case
  proof (cases "matchTagLine l")
    case None
    show ?thesis
    proof (cases "ctag \<noteq> [] \<and> l \<noteq> ''-''")
      case True
      from Cons.IH[of flds ctag "cur @ [l]"] obtain flds' ctag' cur' where
        "\<forall>rest. tokenize flds ctag (cur @ [l]) (pre @ rest) = tokenize flds' ctag' cur' rest"
        by blast
      then have "\<forall>rest. tokenize flds ctag cur ((l # pre) @ rest) = tokenize flds' ctag' cur' rest"
        using None True by simp
      then show ?thesis by blast
    next
      case False
      from Cons.IH[of flds ctag cur] obtain flds' ctag' cur' where
        "\<forall>rest. tokenize flds ctag cur (pre @ rest) = tokenize flds' ctag' cur' rest"
        by blast
      then have "\<forall>rest. tokenize flds ctag cur ((l # pre) @ rest) = tokenize flds' ctag' cur' rest"
        using None False by auto
      then show ?thesis by blast
    qed
  next
    case (Some a)
    obtain t c where a: "a = (t, c)" by (cases a)
    from Cons.IH[of "saveField flds ctag cur" t "if c \<noteq> [] then [c] else []"]
    obtain flds' ctag' cur' where
      "\<forall>rest. tokenize (saveField flds ctag cur) t (if c \<noteq> [] then [c] else []) (pre @ rest)
              = tokenize flds' ctag' cur' rest"
      by blast
    then have "\<forall>rest. tokenize flds ctag cur ((l # pre) @ rest) = tokenize flds' ctag' cur' rest"
      using Some a by simp
    then show ?thesis by blast
  qed
qed

lemma tokenize_continuation:
  assumes "t \<noteq> []" and "\<forall>l \<in> set cs. matchTagLine l = None \<and> l \<noteq> ''-''"
  shows "tokenize flds t cur (cs @ post) = tokenize flds t (cur @ cs) post"
  using assms by (induction cs arbitrary: cur) auto

lemma saveField_other: "ctag \<noteq> t \<Longrightarrow> map_of (saveField flds ctag cur) t = map_of flds t"
  by (simp add: saveField_def update_conv')

lemma saveField_same: "t \<noteq> [] \<Longrightarrow> map_of (saveField flds t cur) t = Some (fieldValueOf cur)"
  by (simp add: saveField_def update_conv')

text \<open>No tag line of \<open>ls\<close> opens tag \<open>t\<close>.\<close>

lemma tokenize_untouched:
  assumes "ctag \<noteq> t" and "\<forall>l \<in> set ls. \<forall>c. matchTagLine l \<noteq> Some (t, c)"
  shows "map_of (tokenize flds ctag cur ls) t = map_of flds t"
  using assms
proof (induction ls arbitrary: flds ctag cur)
  case Nil
  then show ?case by (simp add: saveField_other)
next
  case (Cons l ls)
  show ?case
  proof (cases "matchTagLine l")
    case None
    then show ?thesis using Cons by auto
  next
    case (Some a)
    obtain t' c where a: "a = (t', c)" by (cases a)
    with Some Cons.prems have "t' \<noteq> t" by auto
    from Cons.IH[OF this, of "saveField flds ctag cur" "if c \<noteq> [] then [c] else []"] Cons.prems
    show ?thesis using Some a by (simp add: saveField_other)
  qed
qed

lemma tokenize_field_end:
  assumes "t \<noteq> []"
    and "\<forall>l \<in> set post. \<forall>c. matchTagLine l \<noteq> Some (t, c)"
    and "dropWhile (\<lambda>l. l = ''-'') post = [] \<or> matchTagLine (hd (dropWhile (\<lambda>l. l = ''-'') post)) \<noteq> None"
  shows "map_of (tokenize flds t cur post) t = Some (fieldValueOf cur)"
  using assms
proof (induction post)
  case Nil
  then show ?case by (simp add: saveField_same)
next
  case (Cons l post)
  show ?case
  proof (cases "l = ''-''")
    case True
    then show ?thesis using Cons by (simp add: matchTagLine_dash)
  next
    case False
    with Cons.prems(3) obtain t' c where m: "matchTagLine l = Some (t', c)" by auto
    with Cons.prems(2) have ne: "t' \<noteq> t" by auto
    have "map_of (tokenize (saveField flds t cur) t' (if c \<noteq> [] then [c] else []) post) t
            = map_of (saveField flds t cur) t"
      by (rule tokenize_untouched[OF ne]) (use Cons.prems(2) in auto)
    then show ?thesis using m Cons.prems(1) by (simp add: saveField_same)
  qed
qed

lemma tokenize_field:
  assumes m: "matchTagLine l = Some (t, c)"
    and cs: "\<forall>x \<in> set cs. matchTagLine x = None \<and> x \<noteq> ''-''"
    and later: "\<forall>x \<in> set post. \<forall>c'. matchTagLine x \<noteq> Some (t, c')"
    and stop: "dropWhile (\<lambda>x. x = ''-'') post = []
               \<or> matchTagLine (hd (dropWhile (\<lambda>x. x = ''-'') post)) \<noteq> None"
  shows "map_of (tokenize flds ctag cur (pre @ l # cs @ post)) t
           = Some (fieldValueOf ((if c \<noteq> [] then [c] else []) @ cs))"
proof -
  have t: "t \<noteq> []" using m by (rule matchTagLine_tag_nonempty)
  obtain flds' ctag' cur' where
    "tokenize flds ctag cur (pre @ l # cs @ post) = tokenize flds' ctag' cur' (l # cs @ post)"
    using tokenize_prefix[of flds ctag cur pre] by blast
  also have "\<dots> = tokenize (saveField flds' ctag' cur') t (if c \<noteq> [] then [c] else []) (cs @ post)"
    using m by simp
  also have "\<dots> = tokenize (saveField flds' ctag' cur') t ((if c \<noteq> [] then [c] else []) @ cs) post"
    by (rule tokenize_continuation[OF t cs])
  finally show ?thesis by (simp add: tokenize_field_end[OF t later stop])
qed

lemma saveField_distinct: "distinct (map fst flds) \<Longrightarrow> distinct (map fst (saveField flds ctag cur))"
  by (simp add: saveField_def distinct_update)

lemma tokenize_distinct:
  "distinct (map fst flds) \<Longrightarrow> distinct (map fst (tokenize flds ctag cur ls))"
proof (induction ls arbitrary: flds ctag cur)
  case Nil
  then show ?case by (simp add: saveField_distinct)
next
  case (Cons l ls)
  then show ?case by (cases "matchTagLine l") (auto simp: saveField_distinct)
qed

lemma parseTextBlock_distinct: "distinct (map fst (parseTextBlock block))"
  by (simp add: parseTextBlock_def tokenize_distinct)

lemma distinct_single_entry:
  "distinct (map fst al) \<Longrightarrow> map_of al k = Some v \<Longrightarrow> filter (\<lambda>kv. fst kv = k) al = [(k, v)]"
proof (induction al)
  case Nil
  then show ?case by simp
next
  case (Cons a al)
  obtain k' v' where a: "a = (k', v')" by (cases a)
  show ?case
  proof (cases "k' = k")
    case True
    with Cons.prems a have "v' = v" and "k \<notin> fst ` set al" by auto
    then have "filter (\<lambda>kv. fst kv = k) al = []" by (auto simp: filter_empty_conv)
    then show ?thesis using a True \<open>v' = v\<close> by simp
  next
    case False
    then show ?thesis using Cons a by simp
  qed
qed

subsection \<open>Evaluation of the sample messages\<close>

lemma sampleMT202_blocks:
  "extractBlocks (trim sampleMT202) =
     [(2, ''I202''),
      (4, [CR, LF] @ '':20:A'' @ [CR, LF] @ '':21:B'' @ [CR, LF] @ '':32A:240101USD1,00''
            @ [CR, LF] @ '':58A:X'' @ [CR, LF] @ ''-'')]"
  unfolding sampleMT202_def by code_simp

lemma sampleMT202_text:
  "parseTextBlock ([CR, LF] @ '':20:A'' @ [CR, LF] @ '':21:B'' @ [CR, LF] @ '':32A:240101USD1,00''
            @ [CR, LF] @ '':58A:X'' @ [CR, LF] @ ''-'') = sampleMT202Fields"
  unfolding sampleMT202Fields_def by code_simp

lemma sampleMT202_parsed:
  "messageType (parseMtMessage sampleMT202) = ''MT202''
   \<and> textBlock (parseMtMessage sampleMT202) = sampleMT202Fields"
  using sampleMT202_text
  by (simp add: parseMtMessage_def sampleMT202_blocks Let_def blockOf_def
      parseApplicationHeader_def charAt_def slice_def emptyApplicationHeader_def)

lemma sampleMT202_entries: "objectEntries sampleMT202Fields = sampleMT202Fields"
  by (simp add: sampleMT202Fields_def objectEntries_def isArrayIndex_def isDigit_def
      natOfDigits_def digitVal_def)

lemma sampleMT202_mandatory: "mandatoryErrors MT202_SPEC sampleMT202Fields = []"
  by (simp add: sampleMT202Fields_def mandatoryErrors_def MT202_SPEC_def fieldSpec_def isMissing_def)

lemma sampleMT202_format:
  "concat (map (formatErrors MT202_SPEC) sampleMT202Fields) = []"
  by (simp add: sampleMT202Fields_def formatErrors_def MT202_SPEC_def fieldSpec_def)

lemma sampleMT202_warnings:
  "concat (map (formatWarnings MT202_SPEC) sampleMT202Fields) = []"
  by (simp add: sampleMT202Fields_def formatWarnings_def MT202_SPEC_def fieldSpec_def)

lemma sampleMT202_valid:
  "validateMtMessage (RawText sampleMT202) =
     Inr \<lparr> valid = True, resMessageType = ''MT202'', errors = [], warnings = [],
           parsedFields = sampleMT202Fields \<rparr>"
  using sampleMT202_format sampleMT202_warnings
  by (simp add: validateMtMessage_def sampleMT202_parsed Let_def MT_SPECS_def
      sampleMT202_entries sampleMT202_mandatory)

lemma plainText_blocks: "extractBlocks (trim ''abc'') = [(4, ''abc'')]"
  by code_simp



lemma repeatedTagBlock_lines:
  "splitLines (stripNewlines repeatedTagBlock) =
     ['':20:FIRST'', '':21:REL''] @ '':20:SECOND'' # [] @ [''-'']"
  unfolding repeatedTagBlock_def by code_simp

section \<open>The claims\<close>

text \<open>
  C9.  Every result that \<open>validateMtMessage\<close> returns, on the unknown-type path as on the
  full path, has \<open>valid\<close> true exactly when its error list is empty; the warnings play no
  part in the flag.
\<close>

theorem valid_iff_no_errors:
  "validateMtMessage msg = Inr r \<Longrightarrow> valid r = (errors r = [])"
  by (auto simp: validateMtMessage_def Let_def split: option.splits sum.splits prod.splits)

theorem valid_iff_no_errors_witness:
  "validateMtMessage (RawText sampleMT202) =
     Inr \<lparr> valid = True, resMessageType = ''MT202'', errors = [], warnings = [],
           parsedFields = sampleMT202Fields \<rparr>
   \<and> valid \<lparr> valid = True, resMessageType = ''MT202'', errors = [], warnings = [],
             parsedFields = sampleMT202Fields \<rparr>
     = (errors \<lparr> valid = True, resMessageType = ''MT202'', errors = [], warnings = [],
                 parsedFields = sampleMT202Fields \<rparr> = [])"
  using sampleMT202_valid valid_iff_no_errors [OF sampleMT202_valid] by simp

text \<open>
  C4.  When the message type decoded from a raw message is none of the four registered
  types, the validation result is invalid, holds the unknown-type error as its only error
  and has no warning: no further check has run.
\<close>

theorem unknown_type_short_circuit:
  assumes "messageType (parseMtMessage raw) \<notin> {''MT103'', ''MT202'', ''MT940'', ''MT950''}"
  shows "validateMtMessage (RawText raw) =
     Inr \<lparr> valid = False, resMessageType = messageType (parseMtMessage raw),
           errors = [unknownTypeError (messageType (parseMtMessage raw))], warnings = [],
           parsedFields = textBlock (parseMtMessage raw) \<rparr>"
proof -
  have "MT_SPECS (''MT'' @ replaceFirst ''MT'' [] (messageType (parseMtMessage raw))) = None"
    using assms unfolding specKey_parse by (simp add: MT_SPECS_dom)
  then show ?thesis by (simp add: validateMtMessage_def Let_def)
qed

theorem unknown_type_short_circuit_witness:
  "messageType (parseMtMessage ''abc'') \<notin> {''MT103'', ''MT202'', ''MT940'', ''MT950''}
   \<and> validateMtMessage (RawText ''abc'') =
     Inr \<lparr> valid = False, resMessageType = messageType (parseMtMessage ''abc''),
           errors = [unknownTypeError (messageType (parseMtMessage ''abc''))], warnings = [],
           parsedFields = textBlock (parseMtMessage ''abc'') \<rparr>"
proof -
  have h: "messageType (parseMtMessage ''abc'') \<notin> {''MT103'', ''MT202'', ''MT940'', ''MT950''}"
    by (simp add: parseMtMessage_def plainText_blocks Let_def blockOf_def)
  show ?thesis using h unknown_type_short_circuit [OF h] by simp
qed

text \<open>
  C3.  Decoding and validating a raw string never throw.  \<open>parseMtMessage\<close> has no
  operation that can throw and always builds its record, with the empty header structures
  where block 1 or block 2 is missing and the empty field mapping where block 4 is; and
  \<open>validateMtMessage\<close> on a raw string always returns a result, whose \<open>valid\<close> flag is
  true exactly when its error list is empty.
\<close>

theorem decode_validate_total:
  "(\<exists>r. validateMtMessage (RawText raw) = Inr r \<and> valid r = (errors r = [])
        \<and> resMessageType r = messageType (parseMtMessage raw)
        \<and> parsedFields r = textBlock (parseMtMessage raw))
   \<and> rawMessage (parseMtMessage raw) = trim raw
   \<and> (blockOf (extractBlocks (trim raw)) 1 = None \<longrightarrow>
        basicHeader (parseMtMessage raw) =
          \<lparr> applicationId = [], serviceId = [], ltAddress = [], sessionNumber = [],
            sequenceNumber = [] \<rparr>)
   \<and> (blockOf (extractBlocks (trim raw)) 2 = None \<longrightarrow>
        applicationHeader (parseMtMessage raw) = emptyApplicationHeader
        \<and> messageType (parseMtMessage raw) = [])
   \<and> (blockOf (extractBlocks (trim raw)) 4 = None \<longrightarrow> textBlock (parseMtMessage raw) = [])"
proof -
  obtain r where r: "validateMtMessage (RawText raw) = Inr r"
    using validate_total_raw by blast
  have v: "valid r = (errors r = [])"
    using r by (auto simp: validateMtMessage_def Let_def split: option.splits sum.splits prod.splits)
  have m: "resMessageType r = messageType (parseMtMessage raw)
           \<and> parsedFields r = textBlock (parseMtMessage raw)"
    using r by (auto simp: validateMtMessage_def Let_def split: option.splits sum.splits prod.splits)
  have p: "rawMessage (parseMtMessage raw) = trim raw"
    by (simp add: parseMtMessage_def Let_def)
  show ?thesis using r v m p by (simp add: parseMtMessage_def Let_def)
qed

theorem decode_validate_total_witness:
  "blockOf (extractBlocks (trim ''abc'')) 1 = None
   \<and> blockOf (extractBlocks (trim ''abc'')) 2 = None
   \<and> blockOf (extractBlocks (trim sampleMT202)) 4 \<noteq> None
   \<and> (\<exists>r. validateMtMessage (RawText ''abc'') = Inr r \<and> \<not> valid r \<and> errors r \<noteq> [])
   \<and> basicHeader (parseMtMessage ''abc'') =
        \<lparr> applicationId = [], serviceId = [], ltAddress = [], sessionNumber = [],
          sequenceNumber = [] \<rparr>
   \<and> applicationHeader (parseMtMessage ''abc'') = emptyApplicationHeader
   \<and> messageType (parseMtMessage ''abc'') = []"
proof -
  have h1: "blockOf (extractBlocks (trim ''abc'')) 1 = None"
    and h2: "blockOf (extractBlocks (trim ''abc'')) 2 = None"
    by (simp_all add: plainText_blocks blockOf_def)
  have h4: "blockOf (extractBlocks (trim sampleMT202)) 4 \<noteq> None"
    by (simp add: sampleMT202_blocks blockOf_def)
  have e: "\<not> valid r" if "validateMtMessage (RawText ''abc'') = Inr r" for r
    using that h2 by (auto simp: validateMtMessage_def parseMtMessage_def Let_def MT_SPECS_def)
  show ?thesis using h1 h2 h4 e decode_validate_total [of "''abc''"] by auto
qed






text \<open>
  C7.  A raw input that lacks the opening brace or lacks the closing brace holds no block:
  the block extractor returns the whole (trimmed) input as block 4, the decoder applies
  the tokenizer to it and leaves the headers empty.  Nothing reports the missing
  delimiters: the validation result holds the unknown-type error of the missing
  application header as its only error, and no warning.
\<close>

theorem no_delimiters_fallback:
  assumes "CHR ''{'' \<notin> set raw \<or> CHR ''}'' \<notin> set raw"
  shows "extractBlocks (trim raw) = [(4, trim raw)]
     \<and> textBlock (parseMtMessage raw) = parseTextBlock (trim raw)
     \<and> messageType (parseMtMessage raw) = []
     \<and> applicationHeader (parseMtMessage raw) = emptyApplicationHeader
     \<and> validateMtMessage (RawText raw) =
         Inr \<lparr> valid = False, resMessageType = [], errors = [unknownTypeError []],
               warnings = [], parsedFields = parseTextBlock (trim raw) \<rparr>"
proof -
  have nb: "CHR ''{'' \<notin> set (trim raw) \<or> CHR ''}'' \<notin> set (trim raw)"
    using assms set_trim[of raw] by blast
  have eb: "extractBlocks (trim raw) = [(4, trim raw)]"
    by (simp add: extractBlocks_def scanBlocks_no_braces[OF nb])
  have tb: "textBlock (parseMtMessage raw) = parseTextBlock (trim raw)"
    by (simp add: parseMtMessage_def eb Let_def blockOf_def parseTextBlock_empty)
  have mt: "messageType (parseMtMessage raw) = []"
    and ah: "applicationHeader (parseMtMessage raw) = emptyApplicationHeader"
    by (simp_all add: parseMtMessage_def eb Let_def blockOf_def)
  have "messageType (parseMtMessage raw) \<notin> {''MT103'', ''MT202'', ''MT940'', ''MT950''}"
    by (simp add: mt)
  then have "validateMtMessage (RawText raw) =
         Inr \<lparr> valid = False, resMessageType = [], errors = [unknownTypeError []],
               warnings = [], parsedFields = parseTextBlock (trim raw) \<rparr>"
    by (simp add: validateMtMessage_def Let_def mt tb MT_SPECS_def)
  with eb tb mt ah show ?thesis by simp
qed

theorem no_delimiters_fallback_witness:
  "CHR ''{'' \<notin> set '':20:REF''
   \<and> extractBlocks (trim '':20:REF'') = [(4, trim '':20:REF'')]
   \<and> textBlock (parseMtMessage '':20:REF'') = [(''20'', Str ''REF'')]"
proof -
  have h: "CHR ''{'' \<notin> set '':20:REF'' \<or> CHR ''}'' \<notin> set '':20:REF''" by simp
  have t: "trim '':20:REF'' = '':20:REF''" by code_simp
  have p: "parseTextBlock '':20:REF'' = [(''20'', Str ''REF'')]" by code_simp
  have h': "CHR ''{'' \<notin> set '':20:REF''" by simp
  from no_delimiters_fallback [OF h] h' t p show ?thesis by simp
qed



text \<open>
  C10.  Let tag \<open>t\<close> open a tag line of a text block, with the continuation lines \<open>cs\<close>
  after it, and no later tag line; let \<open>t\<close> also open an earlier tag line.  Then the
  tokenizer maps \<open>t\<close> to the value of the last occurrence alone, whatever the earlier
  occurrences held, and its result (a field mapping and nothing else: it has no place for
  an error or a warning) holds exactly one entry for \<open>t\<close>.
\<close>

theorem repeated_tag_last_wins:
  assumes lines: "splitLines (stripNewlines block) = pre @ l # cs @ post"
    and m: "matchTagLine l = Some (t, c)"
    and earlier: "\<exists>x \<in> set pre. \<exists>c0. matchTagLine x = Some (t, c0)"
    and cs: "\<forall>x \<in> set cs. matchTagLine x = None \<and> x \<noteq> ''-''"
    and later: "\<forall>x \<in> set post. \<forall>c'. matchTagLine x \<noteq> Some (t, c')"
    and stop: "dropWhile (\<lambda>x. x = ''-'') post = []
               \<or> matchTagLine (hd (dropWhile (\<lambda>x. x = ''-'') post)) \<noteq> None"
  shows "filter (\<lambda>kv. fst kv = t) (parseTextBlock block)
           = [(t, fieldValueOf ((if c \<noteq> [] then [c] else []) @ cs))]"
proof -
  have "map_of (parseTextBlock block) t = Some (fieldValueOf ((if c \<noteq> [] then [c] else []) @ cs))"
    unfolding parseTextBlock_def lines by (rule tokenize_field[OF m cs later stop])
  then show ?thesis by (rule distinct_single_entry[OF parseTextBlock_distinct])
qed

theorem repeated_tag_last_wins_witness:
  "splitLines (stripNewlines repeatedTagBlock) =
     ['':20:FIRST'', '':21:REL''] @ '':20:SECOND'' # [] @ [''-'']
   \<and> matchTagLine '':20:SECOND'' = Some (''20'', ''SECOND'')
   \<and> matchTagLine '':20:FIRST'' = Some (''20'', ''FIRST'')
   \<and> filter (\<lambda>kv. fst kv = ''20'') (parseTextBlock repeatedTagBlock) = [(''20'', Str ''SECOND'')]"
proof -
  have m: "matchTagLine '':20:SECOND'' = Some (''20'', ''SECOND'')"
    and m0: "matchTagLine '':20:FIRST'' = Some (''20'', ''FIRST'')"
    by (simp_all add: matchTagLine_def isDigit_def isLineTerminator_def)
  have earlier: "\<exists>x \<in> set ['':20:FIRST'', '':21:REL'']. \<exists>c0. matchTagLine x = Some (''20'', c0)"
    using m0 by simp
  have cs: "\<forall>x \<in> set []. matchTagLine x = None \<and> x \<noteq> ''-''" by simp
  have later: "\<forall>x \<in> set [''-'']. \<forall>c'. matchTagLine x \<noteq> Some (''20'', c')"
    by (simp add: matchTagLine_def)
  have stop: "dropWhile (\<lambda>x. x = ''-'') [''-''] = []
               \<or> matchTagLine (hd (dropWhile (\<lambda>x. x = ''-'') [''-''])) \<noteq> None"
    by simp
  from repeated_tag_last_wins [OF repeatedTagBlock_lines m earlier cs later stop]
    repeatedTagBlock_lines m m0
  show ?thesis by (simp add: fieldValueOf_def)
qed

end
